theory Spec2Isabelle
  imports Main "HOL-Library.Char_ord" "HOL-Library.List_Lexorder" "HOL-Library.Multiset"
    "HOL-Library.AList"
begin

section \<open>Errors, observers and results (rest_client.go)\<close>

text \<open>
  Go's \<open>error\<close> interface is a value of the datatype \<open>error\<close>; a nil error is
  \<open>None :: error option\<close>. \<open>RestClientError\<close> carries (Code, Msg) in the
  argument order of \<open>NewRestClientError\<close>; \<open>AppClientError\<close> carries
  (Code, SubCode, Msg) in the argument order of \<open>NewAppClientError\<close>. \<open>EOF\<close> is
  \<open>io.EOF\<close>; \<open>OtherError\<close> stands for any error of the platform (network, JSON
  encoding, a capability object's own error).
\<close>

datatype error =
    RestClientError string string
  | AppClientError string string string
  | EOF
  | OtherError string

fun NewRestClientError :: "string \<Rightarrow> string \<Rightarrow> error" where
  "NewRestClientError code msg = RestClientError code msg"

fun NewAppClientError :: "string \<Rightarrow> string \<Rightarrow> string \<Rightarrow> error" where
  "NewAppClientError code subCode msg = AppClientError code subCode msg"

text \<open>
  The fields of an \<open>AppClientError\<close>, and the text of \<open>Error()\<close>:
  \<open>RestClientError.Error\<close> returns \<open>Msg\<close>, \<open>AppClientError.Error\<close> returns
  \<open>fmt.Sprintf("%s [%s]", err.Msg, err.Code)\<close>.
\<close>

fun Code :: "error \<Rightarrow> string" where
  "Code (RestClientError code msg) = code"
| "Code (AppClientError code subCode msg) = code"
| "Code _ = []"

fun SubCode :: "error \<Rightarrow> string" where
  "SubCode (AppClientError code subCode msg) = subCode"
| "SubCode _ = []"

fun Msg :: "error \<Rightarrow> string" where
  "Msg (RestClientError code msg) = msg"
| "Msg (AppClientError code subCode msg) = msg"
| "Msg EOF = ''EOF''"
| "Msg (OtherError msg) = msg"

fun Error :: "error \<Rightarrow> string" where
  "Error (AppClientError code subCode msg) = msg @ '' ['' @ code @ '']''"
| "Error e = Msg e"

text \<open>
  The six callbacks of the \<open>RestEvent\<close> interface, as the calls an observer receives.
  A \<open>RestEvent\<close> value is either the package's \<open>RestEventNoop\<close>, whose methods have
  empty bodies, or an observer supplied by the caller (\<open>Observer\<close>); a nil
  \<open>RestEvent\<close> is \<open>None\<close>. \<open>notify\<close> is one method call on a non-nil event: the
  list of callbacks that reach the caller's observer.
\<close>

datatype event_call =
    RequestStart string string
  | RequestRead string
  | ResponseHeader int "(string \<times> string list) list"
  | ResponseRead string
  | ResponseFinish "error option"
  | ResponseCheck "error option"

datatype RestEvent = RestEventNoop | Observer

fun notify :: "RestEvent \<Rightarrow> event_call \<Rightarrow> event_call list" where
  "notify RestEventNoop c = []"
| "notify Observer c = [c]"

text \<open>
  \<open>http.Response\<close>: status code, header and the open body. The body is the platform's
  \<open>io.ReadCloser\<close>; it is modelled by the results its successive \<open>Read\<close> calls
  return, each a chunk of bytes and an error (\<open>None\<close> for nil). A reader never returns
  more bytes than the buffer holds, and a drained reader keeps returning \<open>(0, io.EOF)\<close>.
\<close>

type_synonym Body = "(string \<times> error option) list"

record Response =
  StatusCode :: int
  Header :: "(string \<times> string list) list"
  Body :: Body

fun Body_Read :: "Body \<Rightarrow> nat \<Rightarrow> (string \<times> error option) \<times> Body" where
  "Body_Read [] pLen = (([], Some EOF), [])"
| "Body_Read ((d, e) # rest) pLen = ((take pLen d, e), rest)"

text \<open>
  \<open>RestResult\<close>, field by field. The type parameter \<open>'b\<close> is the type of the endpoint
  builder behind the \<open>RestBuild\<close> interface.
\<close>

record 'b RestResult =
  event :: "RestEvent option"
  build :: "'b option"
  response :: "Response option"
  body :: string
  bodyReadOffset :: int
  err :: "error option"

text \<open>
  A Go call either returns or panics; \<open>Panicked\<close> carries the panic value as
  \<open>%v\<close> prints it.
\<close>

datatype 'a outcome = Returned 'a | Panicked string

definition nil_deref :: string where
  "nil_deref = ''runtime error: invalid memory address or nil pointer dereference''"

text \<open>
  The three constructors. Each returns the new result and the callbacks it fired.
\<close>

definition NewRestResultFromError ::
  "error option \<Rightarrow> RestEvent option \<Rightarrow> 'b RestResult \<times> event_call list" where
  "NewRestResultFromError e ev =
     (let result = \<lparr> event = ev, build = None, response = None, body = [],
                      bodyReadOffset = -1, err = e \<rparr>
      in (result, case ev of None \<Rightarrow> [] | Some v \<Rightarrow> notify v (ResponseFinish e)))"

definition NewRestResult ::
  "'b option \<Rightarrow> Response option \<Rightarrow> RestEvent option \<Rightarrow> 'b RestResult \<times> event_call list" where
  "NewRestResult b resp ev =
     (let result = \<lparr> event = ev, build = b, response = resp, body = [],
                      bodyReadOffset = -1, err = None \<rparr>
      in (result,
          case (ev, resp) of
            (Some v, Some r) \<Rightarrow> notify v (ResponseHeader (StatusCode r) (Header r))
          | _ \<Rightarrow> []))"

definition NewRestBodyResult ::
  "'b option \<Rightarrow> string \<Rightarrow> Response option \<Rightarrow> RestEvent option
     \<Rightarrow> 'b RestResult \<times> event_call list" where
  "NewRestBodyResult b bodyStr resp ev =
     (let result = \<lparr> event = ev, build = b, response = resp, body = bodyStr,
                      bodyReadOffset = 0, err = None \<rparr>
      in (result,
          case ev of
            None \<Rightarrow> []
          | Some v \<Rightarrow>
              (case resp of
                 None \<Rightarrow> []
               | Some r \<Rightarrow> notify v (ResponseHeader (StatusCode r) (Header r)))
              @ notify v (ResponseFinish None)))"

text \<open>
  \<open>RestResult.Read(p)\<close>. The buffer \<open>p\<close> is given by its length \<open>pLen\<close>; the call
  returns the bytes copied into \<open>p[0:n]\<close> (so \<open>n\<close> is their length), the error, the
  updated result and the callbacks fired. Slicing \<open>bDat[res.bodyReadOffset:]\<close> beyond
  the end panics, and so does the method call \<open>res.event.ResponseRead\<close> on a nil event.
\<close>

type_synonym 'b read_ret = "string \<times> error option \<times> 'b RestResult \<times> event_call list"

definition Read :: "'b RestResult \<Rightarrow> nat \<Rightarrow> 'b read_ret outcome" where
  "Read res pLen =
     (case err res of
        Some e \<Rightarrow> Returned ([], Some e, res, [])
      | None \<Rightarrow>
          if bodyReadOffset res \<ge> 0 then
            (let bDat = body res; off = nat (bodyReadOffset res) in
             if off > length bDat then Panicked ''runtime error: slice bounds out of range''
             else
               (let sLen = length (drop off bDat) in
                if sLen = 0 then Returned ([], Some EOF, res, [])
                else if sLen > pLen then
                  Returned (take pLen (drop off bDat), None,
                            res\<lparr>bodyReadOffset := bodyReadOffset res + int pLen\<rparr>, [])
                else
                  Returned (take sLen (drop off bDat), Some EOF,
                            res\<lparr>bodyReadOffset := bodyReadOffset res + int sLen\<rparr>, [])))
          else
            (case response res of
               None \<Rightarrow> Returned ([], Some EOF, res, [])
             | Some resp \<Rightarrow>
                 (case Body_Read (Body resp) pLen of
                    ((d, e), rest) \<Rightarrow>
                      (let res1 = res\<lparr>response := Some (resp\<lparr>Body := rest\<rparr>)\<rparr> in
                       if length d > 0 \<and> event res = None then Panicked nil_deref
                       else
                         (let cs1 = (if length d > 0
                                     then notify (the (event res)) (ResponseRead d) else [])
                          in if e = Some EOF then
                               Returned (d, e, res1,
                                 cs1 @ (case event res of None \<Rightarrow> []
                                        | Some v \<Rightarrow> notify v (ResponseFinish None)))
                             else
                               Returned (d, e, res1\<lparr>err := e\<rparr>,
                                 cs1 @ (case event res of None \<Rightarrow> []
                                        | Some v \<Rightarrow> notify v (ResponseFinish e))))))))"

text \<open>
  A sequence of \<open>Read\<close> calls on one result, with buffers of the given lengths: the
  (bytes, error) pair of every call, the result after the last call and all callbacks
  fired, in order. A panic ends the sequence.
\<close>

fun Reads ::
  "'b RestResult \<Rightarrow> nat list
     \<Rightarrow> ((string \<times> error option) list \<times> 'b RestResult \<times> event_call list) outcome" where
  "Reads res [] = Returned ([], res, [])"
| "Reads res (pLen # ps) =
     (case Read res pLen of
        Panicked v \<Rightarrow> Panicked v
      | Returned (d, e, res1, cs) \<Rightarrow>
          (case Reads res1 ps of
             Panicked v \<Rightarrow> Panicked v
           | Returned (rs, res2, cs2) \<Rightarrow> Returned ((d, e) # rs, res2, cs @ cs2)))"

section \<open>The signer (app\_client.go)\<close>

text \<open>
  \<open>net/url\<close> of the platform. \<open>QueryEscape\<close> keeps letters, digits and
  \<open>- _ . ~\<close>, writes a space as \<open>+\<close> and every other byte as \<open>%XX\<close> in upper-case
  hexadecimal. \<open>url.Values\<close> maps a key to a list of values; \<open>Set\<close> replaces the
  key's values by the single value given; \<open>Encode\<close> visits the keys in sorted order and
  joins \<open>key=value\<close> with \<open>&\<close>. Strings compare byte-wise, as Go's do.
\<close>

definition shouldEscape :: "char \<Rightarrow> bool" where
  "shouldEscape c =
     (\<not> ((CHR ''a'' \<le> c \<and> c \<le> CHR ''z'') \<or> (CHR ''A'' \<le> c \<and> c \<le> CHR ''Z'')
         \<or> (CHR ''0'' \<le> c \<and> c \<le> CHR ''9'')
         \<or> c = CHR ''-'' \<or> c = CHR ''_'' \<or> c = CHR ''.'' \<or> c = CHR ''~''))"

definition upperhex :: string where
  "upperhex = ''0123456789ABCDEF''"

definition escape_byte :: "char \<Rightarrow> string" where
  "escape_byte c =
     (if c = CHR '' '' then ''+''
      else if shouldEscape c
      then [CHR ''%'', upperhex ! (of_char c div 16), upperhex ! (of_char c mod 16)]
      else [c])"

definition QueryEscape :: "string \<Rightarrow> string" where
  "QueryEscape s = concat (map escape_byte s)"

type_synonym Values = "(string \<times> string list) list"

definition Values_Set :: "string \<Rightarrow> string \<Rightarrow> Values \<Rightarrow> Values" where
  "Values_Set key val v = AList.update key [val] v"

fun join_amp :: "string list \<Rightarrow> string" where
  "join_amp [] = []"
| "join_amp [x] = x"
| "join_amp (x # y # ys) = x @ ''&'' @ join_amp (y # ys)"

definition Values_Encode :: "Values \<Rightarrow> string" where
  "Values_Encode v =
     join_amp (concat (map (\<lambda>k. map (\<lambda>val. QueryEscape k @ ''='' @ QueryEscape val)
                                     (case map_of v k of None \<Rightarrow> [] | Some vs \<Rightarrow> vs))
                           (sort (map fst v))))"

text \<open>
  A Go \<open>map[string]string\<close> is an association list with distinct keys. Reading a key
  that is absent gives the empty string. \<open>for k := range m\<close> visits the keys in an
  order the runtime chooses: the order is the parameter \<open>range_order\<close>, a function that
  permutes the key list (\<open>is_range_order\<close>).
\<close>

type_synonym gomap = "(string \<times> string) list"

definition map_index :: "gomap \<Rightarrow> string \<Rightarrow> string" where
  "map_index m k = (case map_of m k of None \<Rightarrow> [] | Some v \<Rightarrow> v)"

definition is_range_order :: "(string list \<Rightarrow> string list) \<Rightarrow> bool" where
  "is_range_order range_order = (\<forall>ks. mset (range_order ks) = mset ks)"

text \<open>
  \<open>AppRestParamSign\<close>, in three parts: the map \<open>reqParam\<close> (the literal and the two
  conditional assignments; \<open>token\<close> is a \<open>*string\<close>, nil being \<open>None\<close>), the string
  \<open>reqData\<close> (keys collected by \<open>range\<close>, sorted, set into \<open>url.Values\<close>,
  encoded), and the digest. \<open>md5_hex s\<close> stands for
  \<open>fmt.Sprintf("%x", md5.Sum([]byte(s)))\<close> of the platform.
\<close>

definition AppRestParamSign_reqParam ::
  "string \<Rightarrow> string \<Rightarrow> string \<Rightarrow> string \<Rightarrow> string \<Rightarrow> string option \<Rightarrow> gomap" where
  "AppRestParamSign_reqParam version appKey method timestamp content token =
     (let reqParam = [(''app'', appKey), (''version'', version),
                      (''timestamp'', timestamp), (''content'', content)];
          reqParam = (if length method > 0
                      then AList.update ''method'' method reqParam else reqParam);
          reqParam = (case token of None \<Rightarrow> reqParam
                      | Some t \<Rightarrow> AList.update ''token'' t reqParam)
      in reqParam)"

definition AppRestParamSign_reqData ::
  "(string list \<Rightarrow> string list) \<Rightarrow> gomap \<Rightarrow> string" where
  "AppRestParamSign_reqData range_order reqParam =
     (let keys = range_order (map fst reqParam);
          keys = sort keys;
          data = fold (\<lambda>key d. Values_Set key (map_index reqParam key) d) keys []
      in Values_Encode data)"

definition AppRestParamSign ::
  "(string list \<Rightarrow> string list) \<Rightarrow> (string \<Rightarrow> string)
     \<Rightarrow> string \<Rightarrow> string \<Rightarrow> string \<Rightarrow> string \<Rightarrow> string \<Rightarrow> string \<Rightarrow> string option
     \<Rightarrow> string" where
  "AppRestParamSign range_order md5_hex version appKey method timestamp content appSecret token =
     (let reqParam = AppRestParamSign_reqParam version appKey method timestamp content token;
          reqData = AppRestParamSign_reqData range_order reqParam
      in md5_hex (reqData @ appSecret))"

text \<open>
  The signing computation as the specification words it, over an explicit set of
  (name, value) fields: sort the field names, URL-form-encode the sorted pairs into one
  string, digest that string followed by the secret.
\<close>

definition spec_encode :: "(string \<times> string) list \<Rightarrow> string" where
  "spec_encode fs =
     join_amp (map (\<lambda>(k, v). QueryEscape k @ ''='' @ QueryEscape v) (sort_key fst fs))"

definition spec_sign :: "(string \<Rightarrow> string) \<Rightarrow> (string \<times> string) list \<Rightarrow> string \<Rightarrow> string" where
  "spec_sign md5_hex fs secret = md5_hex (spec_encode fs @ secret)"

text \<open>
  The field set as the specification words it: of the six fields, those whose value is
  not empty (an absent token has no value).
\<close>

definition spec_nonempty_fields ::
  "string \<Rightarrow> string \<Rightarrow> string \<Rightarrow> string \<Rightarrow> string \<Rightarrow> string option
     \<Rightarrow> (string \<times> string) list" where
  "spec_nonempty_fields version appKey method timestamp content token =
     filter (\<lambda>(k, v). v \<noteq> [])
       [(''app'', appKey), (''version'', version), (''timestamp'', timestamp),
        (''content'', content), (''method'', method),
        (''token'', case token of None \<Rightarrow> [] | Some t \<Rightarrow> t)]"

section \<open>The success envelope (app\_client.go)\<close>

text \<open>
  \<open>gjson.Get(body, path)\<close> is the JSON path query of the library
  \<open>github.com/tidwall/gjson\<close>. It is the parameter \<open>Get\<close>: \<open>None\<close> when the path
  does not exist in the document, otherwise the text that \<open>String()\<close> gives for the
  value found. \<open>String()\<close> of a result that does not exist is the empty string.
\<close>

type_synonym gjson_Get = "string \<Rightarrow> string \<Rightarrow> string option"

definition gjson_String :: "string option \<Rightarrow> string" where
  "gjson_String r = (case r of None \<Rightarrow> [] | Some s \<Rightarrow> s)"

definition CheckJsonResult :: "gjson_Get \<Rightarrow> string \<Rightarrow> error option" where
  "CheckJsonResult Get bodyStr =
     (let code = gjson_String (Get bodyStr ''result.code'');
          state = gjson_String (Get bodyStr ''result.state'')
      in if code \<noteq> ''200'' \<or> state \<noteq> ''ok'' then
           (let msg = gjson_String (Get bodyStr ''result.message'');
                msg = (if length msg = 0 then bodyStr else msg)
            in Some (NewAppClientError code (gjson_String (Get bodyStr ''result.state''))
                       (''server return fail:'' @ msg)))
         else None)"

text \<open>
  What gjson returns on three documents: the failure envelope and the success envelope
  of the specification's scenarios, and a document without the \<open>result\<close> member, in
  which none of the three paths exists.
\<close>

definition body_bad_id :: string where
  "body_bad_id = ''{\"result\":{\"code\":\"500\",\"state\":\"fail\",\"message\":\"bad id\"}}''"

definition body_ok :: string where
  "body_ok = ''{\"result\":{\"code\":\"200\",\"state\":\"ok\"},\"data\":{\"id\":\"111\"}}''"

definition body_no_marker :: string where
  "body_no_marker = ''{\"data\":{\"id\":\"111\"}}''"

definition example_Get :: gjson_Get where
  "example_Get bodyStr path =
     (if bodyStr = body_bad_id
      then map_of [(''result.code'', ''500''), (''result.state'', ''fail''),
                   (''result.message'', ''bad id'')] path
      else if bodyStr = body_ok
      then map_of [(''result.code'', ''200''), (''result.state'', ''ok'')] path
      else None)"

section \<open>Configuration, capability object and client\<close>

text \<open>
  \<open>AppRestConfig\<close>; \<open>EventCreate\<close> is a function field: \<open>None\<close> is the nil
  function, \<open>Some ev\<close> a factory returning the event \<open>ev\<close> (which a factory may leave
  nil). A \<open>RestConfig\<close> in the registry is an \<open>*AppRestConfig\<close> or a value of
  another type with the name \<open>GetName\<close> returns.
\<close>

record AppRestConfig =
  Name :: string
  AppKey :: string
  AppSecret :: string
  AppUrl :: string
  EventCreate :: "RestEvent option option"

datatype RestConfig = AppConfig AppRestConfig | OtherConfig string

fun GetName :: "RestConfig \<Rightarrow> string" where
  "GetName (AppConfig clf) = Name clf"
| "GetName (OtherConfig n) = n"

record AppRestBuild =
  Timeout :: int
  Path :: string
  HttpMethod :: string
  Method :: string

text \<open>
  The capability object, by what its methods return for the call at hand.
  \<open>Token\<close> is \<open>None\<close> when the object does not implement \<open>RestTokenApi\<close>,
  \<open>RequestId\<close> is \<open>None\<close> when it does not implement \<open>AppRestRequestId\<close>.
\<close>

record 'b RestApi =
  ConfigBuilds :: "error + (int \<rightharpoonup> 'b)"
  ConfigName :: "error + string"
  Token :: "(error + string) option"
  RequestId :: "string option"

record 'b RestClient =
  Api :: "'b RestApi"
  config :: "string \<rightharpoonup> RestConfig"

definition GetConfig :: "'b RestClient \<Rightarrow> error + RestConfig" where
  "GetConfig client =
     (case ConfigName (Api client) of
        Inl e \<Rightarrow> Inl e
      | Inr configName \<Rightarrow>
          (case config client configName of
             None \<Rightarrow> Inl (NewRestClientError ''1'' (''rest config is exits:'' @ configName))
           | Some c \<Rightarrow> Inr c))"

text \<open>
  \<open>RestRequestReader.Read\<close>: the first argument is what the wrapped reader's
  \<open>Read\<close> returns, \<open>None\<close> when the wrapped reader is nil.
\<close>

definition RestRequestReader_Read ::
  "(string \<times> error option) option \<Rightarrow> RestEvent option
     \<Rightarrow> (string \<times> error option) \<times> event_call list" where
  "RestRequestReader_Read r ev =
     (case r of
        None \<Rightarrow> (([], Some (NewRestClientError ''10'' ''request reader is empty'')), [])
      | Some (d, e) \<Rightarrow>
          ((d, e), case ev of None \<Rightarrow> []
                   | Some v \<Rightarrow> if length d > 0 then notify v (RequestRead d) else []))"

section \<open>The endpoint builder (app\_client.go)\<close>

text \<open>
  What \<open>BuildRequest\<close> takes from the platform: the order of \<open>range\<close> over a map,
  the MD5 digest in hexadecimal, \<open>json.Marshal\<close>, the formatted current time,
  \<open>http.NewRequest\<close> (by the error it returns for a method and a URL; the request is
  nil when there is an error) and \<open>http.Client.Do\<close> (by the reads it makes on the
  request body, \<open>None\<close> for no body, and the response or error it returns). The shared
  transport, its response-header timeout and the request headers have no effect on the
  channel of \<open>Do\<close> or on the observer and are left out.
\<close>

record 'p platform =
  range_order :: "string list \<Rightarrow> string list"
  md5_hex :: "string \<Rightarrow> string"
  json_Marshal :: "'p \<Rightarrow> error + string"
  time_Now :: string
  http_NewRequest :: "string \<Rightarrow> string \<Rightarrow> error option"
  httpClient_Do ::
    "string \<Rightarrow> string \<Rightarrow> string option \<Rightarrow> (string \<times> error option) list \<times> (error + Response)"

type_synonym 'b build_ret = "event_call list \<times> 'b RestResult outcome"

definition ret :: "event_call list \<Rightarrow> 'b RestResult \<times> event_call list \<Rightarrow> 'b build_ret" where
  "ret cs r = (cs @ snd r, Returned (fst r))"

definition BuildRequest ::
  "'p platform \<Rightarrow> AppRestBuild \<Rightarrow> AppRestBuild RestClient \<Rightarrow> int \<Rightarrow> 'p \<Rightarrow> 'c
     \<Rightarrow> AppRestBuild build_ret" where
  "BuildRequest pf clt client key param callerInfo =
     (case GetConfig client of
        Inl e \<Rightarrow> ret [] (NewRestResultFromError (Some e) (Some RestEventNoop))
      | Inr (OtherConfig n) \<Rightarrow>
          ret [] (NewRestResultFromError
                    (Some (NewRestClientError ''11'' ''build config is wrong''))
                    (Some RestEventNoop))
      | Inr (AppConfig cfg) \<Rightarrow>
          (let ev = (case EventCreate cfg of None \<Rightarrow> Some RestEventNoop | Some e \<Rightarrow> e);
               apiUrl = AppUrl cfg;
               appid = AppKey cfg;
               keyConfig = AppSecret cfg
           in case json_Marshal pf param of
                Inl e \<Rightarrow> ret [] (NewRestResultFromError (Some e) ev)
              | Inr jsonParam \<Rightarrow>
                  (case (case Token (Api client) of
                           None \<Rightarrow> Inr None
                         | Some (Inl e) \<Rightarrow> Inl e
                         | Some (Inr tokenTmp) \<Rightarrow> Inr (Some tokenTmp)) of
                     Inl e \<Rightarrow> ret [] (NewRestResultFromError (Some e) ev)
                   | Inr token \<Rightarrow>
                       (let timestamp = time_Now pf;
                            dataSign = AppRestParamSign (range_order pf) (md5_hex pf) ''1.0'' appid
                                         (Method clt) timestamp jsonParam keyConfig token;
                            reqParam = [(''app'', appid), (''version'', ''1.0''),
                                        (''timestamp'', timestamp), (''content'', jsonParam),
                                        (''sign'', dataSign)];
                            reqParam = (if length (Method clt) > 0
                                        then AList.update ''method'' (Method clt) reqParam
                                        else reqParam);
                            reqParam = (case token of None \<Rightarrow> reqParam
                                        | Some t \<Rightarrow> AList.update ''token'' t reqParam);
                            pData = fold (\<lambda>k d. Values_Set k (map_index reqParam k) d)
                                      (range_order pf (map fst reqParam)) [];
                            paramStr = Values_Encode pData;
                            apiUrl = apiUrl @ Path clt;
                            apiUrl = (if HttpMethod clt = ''GET''
                                      then (if CHR ''?'' \<notin> set apiUrl
                                            then apiUrl @ ''?'' @ paramStr
                                            else apiUrl @ ''&'' @ paramStr)
                                      else apiUrl);
                            ioRead = (if HttpMethod clt = ''GET'' then None else Some paramStr)
                        in case ev of
                             None \<Rightarrow> ([], Panicked nil_deref)
                           | Some v \<Rightarrow>
                               (let cs = notify v (RequestStart (HttpMethod clt) apiUrl);
                                    reqErr = http_NewRequest pf (HttpMethod clt) apiUrl
                                in if reqErr \<noteq> None \<and> RequestId (Api client) \<noteq> None
                                   then (cs, Panicked nil_deref)
                                   else if reqErr \<noteq> None \<and> HttpMethod clt = ''POST''
                                   then (cs, Panicked nil_deref)
                                   else
                                     (case reqErr of
                                        Some e \<Rightarrow> ret cs (NewRestResultFromError (Some e) ev)
                                      | None \<Rightarrow>
                                          (case httpClient_Do pf (HttpMethod clt) apiUrl ioRead of
                                             (reads, r) \<Rightarrow>
                                               (let cs = cs @ concat (map (\<lambda>rd.
                                                           snd (RestRequestReader_Read (Some rd) ev))
                                                           reads)
                                                in case r of
                                                     Inl e \<Rightarrow>
                                                       ret cs (NewRestResultFromError (Some e) ev)
                                                   | Inr res \<Rightarrow>
                                                       ret cs (NewRestResult (Some clt)
                                                                 (Some res) ev)))))))))"

section \<open>The dispatcher (rest\_client.go)\<close>

text \<open>
  One run of \<open>Do\<close>, by what can be seen of it: the operations made on the channel
  \<open>rc\<close> in order (the channel has room for one result, so the one send never blocks),
  the callbacks that reached the caller's observer, and the panic value that leaves the
  spawned goroutine, if any (a panic that leaves a goroutine ends the process).
\<close>

datatype 'r chan_op = Send 'r | Close

record 'b Do_run =
  chan_ops :: "'b RestResult chan_op list"
  calls :: "event_call list"
  escaped :: "string option"

text \<open>
  The goroutine of \<open>Do\<close>, given what \<open>build.BuildRequest\<close> did. When the builder
  returns, the result is sent, the channel closed, and the deferred function finds
  \<open>recover()\<close> nil. When the builder panics, the deferred function runs with
  \<open>recover()\<close> returning the panic value, which ends the panic.
\<close>

definition Do_goroutine :: "'b build_ret \<Rightarrow> 'b Do_run" where
  "Do_goroutine b =
     (case b of
        (cs, Returned res) \<Rightarrow> \<lparr> chan_ops = [Send res, Close], calls = cs, escaped = None \<rparr>
      | (cs, Panicked info) \<Rightarrow>
          (case NewRestResultFromError
                  (Some (NewRestClientError ''3'' (''panic '' @ info))) None of
             (r, cs') \<Rightarrow> \<lparr> chan_ops = [Send r, Close], calls = cs @ cs', escaped = None \<rparr>))"

text \<open>
  \<open>RestClient.Do\<close>. The method \<open>BuildRequest\<close> of the \<open>RestBuild\<close> interface is
  the first argument: what the builder found under the key does when called. The second
  argument \<open>caller\<close> is the value of \<open>callerFileInfo("rest_client/rest_client.go", 1, 15)\<close>,
  a function of the package that is not in the files at hand; \<open>Do\<close> only hands the
  value on to the builder.
\<close>

definition Do ::
  "('b \<Rightarrow> 'b RestClient \<Rightarrow> int \<Rightarrow> 'p \<Rightarrow> 'c \<Rightarrow> 'b build_ret) \<Rightarrow> 'c
     \<Rightarrow> 'b RestClient \<Rightarrow> int \<Rightarrow> 'p \<Rightarrow> 'b Do_run" where
  "Do build_BuildRequest caller client key param =
     (case ConfigBuilds (Api client) of
        Inl e \<Rightarrow>
          (case NewRestResultFromError (Some e) None of
             (r, cs) \<Rightarrow> \<lparr> chan_ops = [Send r], calls = cs, escaped = None \<rparr>)
      | Inr reqs \<Rightarrow>
          (case reqs key of
             None \<Rightarrow>
               (case NewRestResultFromError
                       (Some (NewRestClientError ''2'' ''not find rest api'')) None of
                  (r, cs) \<Rightarrow> \<lparr> chan_ops = [Send r, Close], calls = cs, escaped = None \<rparr>)
           | Some b \<Rightarrow> Do_goroutine (build_BuildRequest b client key param caller)))"


definition chan_closed :: "'r chan_op list \<Rightarrow> bool" where
  "chan_closed ops = (Close \<in> set ops)"

section \<open>Example runs\<close>

text \<open>
  A live result over a response whose body gives three bytes and then the end of
  data, watched by an observer.
\<close>

definition live_example :: "AppRestBuild RestResult" where
  "live_example =
     fst (NewRestResult None
            (Some \<lparr> StatusCode = 200, Header = [], Body = [(''abc'', None), ([], Some EOF)] \<rparr>)
            (Some Observer))"

text \<open>
  A capability object whose \<open>ConfigBuilds\<close> fails, and the client around it.
\<close>

definition failing_client :: "AppRestBuild RestClient" where
  "failing_client =
     \<lparr> Api = \<lparr> ConfigBuilds = Inl (OtherError ''no builds''), ConfigName = Inr ''product'',
               Token = None, RequestId = None \<rparr>,
       config = Map.empty \<rparr>"




text \<open>
  The MD5 digests, in hexadecimal, of the two strings signed in the runs below.
\<close>

definition example_md5_hex :: "string \<Rightarrow> string" where
  "example_md5_hex s =
     (if s = ''app=hjx&content=%7B%22id%22%3A%22111%22%7D&method=add''
             @ ''&timestamp=2022-01-01+00%3A00%3A00&token=&version=1.0''
             @ ''f4dea3417a2f52ae29a635be00537395''
      then ''882f60e66cabb568b7f54bfe0d7b3a01''
      else if s = ''app=hjx&content=%7B%22id%22%3A%22111%22%7D''
             @ ''&timestamp=2022-01-01+00%3A00%3A00&token=&version=1.0''
             @ ''f4dea3417a2f52ae29a635be00537395''
      then ''112bb567542f71c068791bdf633375af''
      else [])"

definition example_platform :: "gomap platform" where
  "example_platform =
     \<lparr> range_order = rev,
       md5_hex = example_md5_hex,
       json_Marshal = (\<lambda>p. if p = [(''id'', ''111'')] then Inr ''{\"id\":\"111\"}''
                            else Inl (OtherError ''json: unsupported value'')),
       time_Now = ''2022-01-01 00:00:00'',
       http_NewRequest = (\<lambda>m u. if u = ''127.0.0.1:8080/jp/product''
                                  then Some (OtherError
                                    ''first path segment in URL cannot contain colon'')
                                  else None),
       httpClient_Do = (\<lambda>m u b. ([], Inl (OtherError ''connection refused''))) \<rparr>"

section \<open>Reading a buffered result\<close>

lemma Read_buffered:
  assumes "err res = None" "bodyReadOffset res = int off" "off \<le> length (body res)"
  shows "Read res p =
           Returned (take p (drop off (body res)),
                     (if length (body res) \<le> off + p then Some EOF else None),
                     res\<lparr>bodyReadOffset := int (min (off + p) (length (body res)))\<rparr>, [])"
  using assms by (auto simp: Read_def Let_def min_def)

lemma drop_min_eq: "drop (min (a + p) (length s)) s = drop (a + p) s"
  by (simp add: min_def)

lemma Reads_buffered:
  assumes "err res = None" "bodyReadOffset res = int off" "off \<le> length (body res)"
  shows "\<exists>rs res'. Reads res ps = Returned (rs, res', [])
           \<and> length rs = length ps
           \<and> concat (map fst rs) = take (sum_list ps) (drop off (body res))
           \<and> (\<forall>i<length ps. rs ! i =
                 (take (ps ! i) (drop (off + sum_list (take i ps)) (body res)),
                  if length (body res) \<le> off + sum_list (take (Suc i) ps)
                  then Some EOF else None))"
  using assms
proof (induction ps arbitrary: res off)
  case Nil
  then show ?case by simp
next
  case (Cons p ps)
  let ?s = "body res"
  let ?off' = "min (off + p) (length ?s)"
  let ?res1 = "res\<lparr>bodyReadOffset := int ?off'\<rparr>"
  have step: "Read res p =
           Returned (take p (drop off ?s),
                     (if length ?s \<le> off + p then Some EOF else None), ?res1, [])"
    by (rule Read_buffered [OF Cons.prems])
  have "err ?res1 = None" "bodyReadOffset ?res1 = int ?off'" "?off' \<le> length (body ?res1)"
    using Cons.prems by simp_all
  from Cons.IH [OF this] obtain rs res' where
    rs: "Reads ?res1 ps = Returned (rs, res', [])" "length rs = length ps"
      "concat (map fst rs) = take (sum_list ps) (drop ?off' ?s)"
      "\<forall>i<length ps. rs ! i =
                 (take (ps ! i) (drop (?off' + sum_list (take i ps)) ?s),
                  if length ?s \<le> ?off' + sum_list (take (Suc i) ps)
                  then Some EOF else None)"
    by auto
  let ?r = "(take p (drop off ?s), if length ?s \<le> off + p then Some EOF else None)"
  have 1: "Reads res (p # ps) = Returned (?r # rs, res', [])"
    using step rs(1) by simp
  have 2: "concat (map fst (?r # rs)) = take (sum_list (p # ps)) (drop off ?s)"
    using rs(3) by (simp add: take_add drop_min_eq add.commute)
  have 3: "(?r # rs) ! i =
                 (take ((p # ps) ! i) (drop (off + sum_list (take i (p # ps))) ?s),
                  if length ?s \<le> off + sum_list (take (Suc i) (p # ps))
                  then Some EOF else None)" if "i < length (p # ps)" for i
  proof (cases i)
    case 0
    then show ?thesis by simp
  next
    case (Suc j)
    then have j: "j < length ps" using that by simp
    have d: "drop (?off' + sum_list (take j ps)) ?s = drop (off + (p + sum_list (take j ps))) ?s"
      by (simp add: min_def add.assoc)
    have e: "(length ?s \<le> ?off' + sum_list (take (Suc j) ps)) =
             (length ?s \<le> off + (p + sum_list (take (Suc j) ps)))"
      by (auto simp: min_def)
    show ?thesis using rs(4) j Suc d e by simp
  qed
  show ?case using 1 2 3 rs(2) by simp
qed

text \<open>
  C7. A result made by \<open>NewRestBodyResult\<close> from the body \<open>s\<close> is read with buffers of
  lengths \<open>ps\<close>. No read panics or fires a callback. The \<open>i\<close>-th read returns the
  slice of \<open>s\<close> that starts where the reads before it stopped and is as long as its
  buffer allows, so the slices are consecutive and disjoint and together are the
  prefix of \<open>s\<close> read so far, all of \<open>s\<close> once the buffers add up to its length. A read
  returns \<open>io.EOF\<close> exactly when the buffers up to and including its own cover the
  rest of the body: the read that delivers the last bytes returns all of them with the
  end-of-data signal, and every later read returns no bytes and the end-of-data signal.
\<close>

theorem Reads_buffered_body:
  "\<exists>rs res'. Reads (fst (NewRestBodyResult b s resp ev)) ps = Returned (rs, res', [])
     \<and> length rs = length ps
     \<and> concat (map fst rs) = take (sum_list ps) s
     \<and> (length s \<le> sum_list ps \<longrightarrow> concat (map fst rs) = s)
     \<and> (\<forall>i<length ps. rs ! i =
           (take (ps ! i) (drop (sum_list (take i ps)) s),
            if length s \<le> sum_list (take (Suc i) ps) then Some EOF else None))"
proof -
  let ?res = "fst (NewRestBodyResult b s resp ev)"
  have "err ?res = None" "bodyReadOffset ?res = int 0" "0 \<le> length (body ?res)"
    and s: "body ?res = s"
    by (simp_all add: NewRestBodyResult_def)
  from Reads_buffered [OF this(1-3), of ps] s show ?thesis
    by auto
qed

theorem Reads_buffered_body_witness:
  "\<exists>rs res'. Reads (fst (NewRestBodyResult (None :: AppRestBuild option) ''hello'' None None))
                [2, 2, 2, 2] = Returned (rs, res', [])
     \<and> rs = [(''he'', None), (''ll'', None), (''o'', Some EOF), ([], Some EOF)]
     \<and> concat (map fst rs) = ''hello''"
proof -
  from Reads_buffered_body [of "None :: AppRestBuild option" "''hello''" None None "[2, 2, 2, 2]"]
  obtain rs res' where
    run: "Reads (fst (NewRestBodyResult (None :: AppRestBuild option) ''hello'' None None))
            [2, 2, 2, 2] = Returned (rs, res', [])"
    and len: "length rs = length [2, 2, 2, 2 :: nat]"
    and nth: "\<forall>i<length [2, 2, 2, 2 :: nat]. rs ! i =
           (take ([2, 2, 2, 2] ! i) (drop (sum_list (take i [2, 2, 2, 2])) ''hello''),
            if length ''hello'' \<le> sum_list (take (Suc i) [2, 2, 2, 2]) then Some EOF else None)"
    by blast
  from len obtain r0 r1 r2 r3 where rs: "rs = [r0, r1, r2, r3]"
    by (auto simp: length_Suc_conv)
  have "r0 = (''he'', None)" using nth [rule_format, of 0] rs by simp
  moreover have "r1 = (''ll'', None)" using nth [rule_format, of 1] rs by simp
  moreover have "r2 = (''o'', Some EOF)" using nth [rule_format, of 2] rs by (simp add: numeral_2_eq_2)
  moreover have "r3 = ([], Some EOF)" using nth [rule_format, of 3] rs by (simp add: numeral_3_eq_3)
  ultimately have "rs = [(''he'', None), (''ll'', None), (''o'', Some EOF), ([], Some EOF)]"
    using rs by simp
  with run show ?thesis by simp
qed

section \<open>Reading a live result\<close>

text \<open>
  C4. The live result \<open>live_example\<close> is read twice with a buffer of eight bytes. The
  first read is an ordinary partial read: it returns the three bytes and a nil error, so
  \<open>err == io.EOF\<close> is false and the \<open>else\<close> branch of \<open>Read\<close> runs, which stores
  the nil error and calls \<open>ResponseFinish(nil)\<close>. The second read reaches the end of
  data and calls \<open>ResponseFinish(nil)\<close> again. The observer's \<open>ResponseFinish\<close> has
  fired twice, the first time on a read that did not finish the body.
\<close>

theorem Reads_live_ResponseFinish_twice:
  "(\<exists>res'. Read live_example 8 =
             Returned (''abc'', None, res', [ResponseRead ''abc'', ResponseFinish None]))
   \<and> (\<exists>res'. Reads live_example [8, 8] =
             Returned ([(''abc'', None), ([], Some EOF)], res',
                       [ResponseRead ''abc'', ResponseFinish None, ResponseFinish None]))"
  by (simp add: live_example_def NewRestResult_def Read_def)

section \<open>The channel of Do\<close>



text \<open>
  Whenever \<open>ConfigBuilds\<close> succeeds, one result is sent and the channel is closed:
  the key missing, the builder returning, the builder panicking.
\<close>

lemma Do_builds_resolved_send_close:
  assumes "ConfigBuilds (Api client) = Inr reqs"
  shows "\<exists>r. chan_ops (Do BR caller client key param) = [Send r, Close]"
proof (cases "reqs key")
  case None
  with assms show ?thesis
    by (simp add: Do_def NewRestResultFromError_def)
next
  case (Some b)
  obtain cs out where "BR b client key param caller = (cs, out)"
    by (cases "BR b client key param caller")
  with assms Some show ?thesis
    by (cases out) (simp_all add: Do_def Do_goroutine_def NewRestResultFromError_def)
qed

text \<open>
  C1. \<open>Do\<close> is called on a client whose capability object's \<open>ConfigBuilds\<close> returns
  an error. One result, carrying that error, is sent on the channel, and \<open>Do\<close>
  returns: the channel is never closed. A receiver gets the one result; a second
  receive, or a \<open>range\<close> over the channel, waits for ever.
\<close>

theorem Do_ConfigBuilds_error_not_closed:
  "chan_ops (Do (BuildRequest example_platform) () failing_client 1 [(''id'', ''111'')])
     = [Send \<lparr> event = None, build = None, response = None, body = [],
               bodyReadOffset = -1, err = Some (OtherError ''no builds'') \<rparr>]
   \<and> \<not> chan_closed
         (chan_ops (Do (BuildRequest example_platform) () failing_client 1 [(''id'', ''111'')]))"
  by (simp add: Do_def failing_client_def NewRestResultFromError_def chan_closed_def)



section \<open>The observer and the error results of Do\<close>




section \<open>The signed fields\<close>

lemma sort_range_order:
  assumes "is_range_order ro"
  shows "sort (ro ks) = sort ks"
proof -
  have "mset (sort ks) = mset (ro ks)"
    using assms by (simp add: is_range_order_def)
  then show ?thesis
    by (rule properties_for_sort) simp
qed

lemma is_range_order_rev: "is_range_order rev"
  by (simp add: is_range_order_def)

lemma is_range_order_id: "is_range_order (\<lambda>ks. ks)"
  by (simp add: is_range_order_def)

text \<open>The order of the six field names.\<close>

lemma le_lits:
  "''app'' \<le> ''content''" "''content'' \<le> ''method''" "''method'' \<le> ''timestamp''"
  "''timestamp'' \<le> ''token''" "''token'' \<le> ''version''" "''content'' \<le> ''timestamp''"
  "''app'' \<le> ''version''" "''timestamp'' \<le> ''version''" "''content'' \<le> ''version''"
  "''app'' \<le> ''timestamp''" "''app'' \<le> ''method''" "''app'' \<le> ''token''"
  "''content'' \<le> ''token''" "''method'' \<le> ''version''" "''method'' \<le> ''token''"
  by code_simp+

lemma nle_lits:
  "\<not> ''version'' \<le> ''app''" "\<not> ''version'' \<le> ''timestamp''"
  "\<not> ''version'' \<le> ''content''" "\<not> ''timestamp'' \<le> ''content''"
  "\<not> ''timestamp'' \<le> ''app''" "\<not> ''content'' \<le> ''app''"
  "\<not> ''method'' \<le> ''app''" "\<not> ''method'' \<le> ''content''"
  "\<not> ''timestamp'' \<le> ''method''" "\<not> ''version'' \<le> ''method''"
  "\<not> ''token'' \<le> ''app''" "\<not> ''token'' \<le> ''content''"
  "\<not> ''token'' \<le> ''timestamp''" "\<not> ''version'' \<le> ''token''"
  "\<not> ''token'' \<le> ''method''"
  by code_simp+

text \<open>
  Whatever order \<open>range\<close> takes, the string that is signed is the sorted encoding of
  the fields of \<open>reqParam\<close>.
\<close>

lemma reqData_spec_encode:
  assumes "is_range_order ro"
  shows "AppRestParamSign_reqData ro
           (AppRestParamSign_reqParam version appKey method timestamp content token)
         = spec_encode (AppRestParamSign_reqParam version appKey method timestamp content token)"
  using sort_range_order [OF assms]
  by (cases "method = []"; cases token)
     (simp_all add: AppRestParamSign_reqData_def AppRestParamSign_reqParam_def
        spec_encode_def Values_Encode_def Values_Set_def map_index_def le_lits nle_lits
        del: Cons_le_Cons)

lemma reqParam_set:
  "set (AppRestParamSign_reqParam version appKey method timestamp content token)
     = {(''app'', appKey), (''version'', version), (''timestamp'', timestamp),
        (''content'', content)}
       \<union> (if method = [] then {} else {(''method'', method)})
       \<union> (case token of None \<Rightarrow> {} | Some t \<Rightarrow> {(''token'', t)})"
  by (cases token) (auto simp: AppRestParamSign_reqParam_def)

text \<open>
  C2 as stated fails on empty values: with an empty application key and a token that is
  present and empty, \<open>app\<close> and \<open>token\<close> are in the map and in the signed string,
  each with an empty value.
\<close>

theorem reqParam_empty_value_counterexample:
  "set (AppRestParamSign_reqParam ''1.0'' [] ''add'' ''2022-01-01 00:00:00'' ''{}'' (Some []))
     \<noteq> set (spec_nonempty_fields ''1.0'' [] ''add'' ''2022-01-01 00:00:00'' ''{}'' (Some []))
   \<and> (''app'', []) \<in> set (AppRestParamSign_reqParam ''1.0'' [] ''add''
                              ''2022-01-01 00:00:00'' ''{}'' (Some []))
   \<and> (''token'', []) \<in> set (AppRestParamSign_reqParam ''1.0'' [] ''add''
                                ''2022-01-01 00:00:00'' ''{}'' (Some []))
   \<and> AppRestParamSign_reqData rev
        (AppRestParamSign_reqParam ''1.0'' [] ''add'' ''2022-01-01 00:00:00'' ''{}'' (Some []))
       = ''app=&content=%7B%7D&method=add&timestamp=2022-01-01+00%3A00%3A00&token=&version=1.0''"
  by code_simp

text \<open>
  C2, as amended. The fields that enter the signed string are: \<open>app\<close>, \<open>version\<close>,
  \<open>timestamp\<close> and \<open>content\<close> always, whatever their values, the empty string
  included; \<open>method\<close> exactly when the method is not empty; \<open>token\<close> exactly when
  the token pointer is not nil, an empty token included. The names are distinct, and the
  signature is the digest of the sorted encoding of exactly these fields followed by the
  secret, whatever order the map is ranged over in.
\<close>

theorem AppRestParamSign_signed_fields:
  assumes "is_range_order ro"
  shows "set (AppRestParamSign_reqParam version appKey method timestamp content token)
           = {(''app'', appKey), (''version'', version), (''timestamp'', timestamp),
              (''content'', content)}
             \<union> (if method = [] then {} else {(''method'', method)})
             \<union> (case token of None \<Rightarrow> {} | Some t \<Rightarrow> {(''token'', t)})
         \<and> distinct (map fst
             (AppRestParamSign_reqParam version appKey method timestamp content token))
         \<and> AppRestParamSign ro md5 version appKey method timestamp content appSecret token
           = md5 (spec_encode
                    (AppRestParamSign_reqParam version appKey method timestamp content token)
                  @ appSecret)"
proof -
  have "distinct (map fst
          (AppRestParamSign_reqParam version appKey method timestamp content token))"
    by (cases "method = []"; cases token)
       (simp_all add: AppRestParamSign_reqParam_def)
  then show ?thesis
    using reqParam_set reqData_spec_encode [OF assms]
    by (simp add: AppRestParamSign_def)
qed

theorem AppRestParamSign_signed_fields_witness:
  "is_range_order rev
   \<and> set (AppRestParamSign_reqParam ''1.0'' [] ''add'' ''2022-01-01 00:00:00'' ''{}'' (Some []))
       = {(''app'', []), (''version'', ''1.0''), (''timestamp'', ''2022-01-01 00:00:00''),
          (''content'', ''{}''), (''method'', ''add''), (''token'', [])}
   \<and> AppRestParamSign rev (\<lambda>s. s) ''1.0'' [] ''add'' ''2022-01-01 00:00:00'' ''{}''
        ''secret'' (Some [])
       = spec_encode [(''app'', []), (''version'', ''1.0''),
                      (''timestamp'', ''2022-01-01 00:00:00''), (''content'', ''{}''),
                      (''method'', ''add''), (''token'', [])] @ ''secret''"
proof -
  have p: "AppRestParamSign_reqParam ''1.0'' [] ''add'' ''2022-01-01 00:00:00'' ''{}'' (Some [])
        = [(''app'', []), (''version'', ''1.0''), (''timestamp'', ''2022-01-01 00:00:00''),
           (''content'', ''{}''), (''method'', ''add''), (''token'', [])]"
    by (simp add: AppRestParamSign_reqParam_def)
  from AppRestParamSign_signed_fields
         [OF is_range_order_rev, of "''1.0''" "[]" "''add''" "''2022-01-01 00:00:00''" "''{}''"
            "Some []" "\<lambda>s. s" "''secret''"]
  have "set (AppRestParamSign_reqParam ''1.0'' [] ''add'' ''2022-01-01 00:00:00'' ''{}'' (Some []))
       = {(''app'', []), (''version'', ''1.0''), (''timestamp'', ''2022-01-01 00:00:00''),
          (''content'', ''{}'')} \<union> {(''method'', ''add'')} \<union> {(''token'', [])}"
    and "AppRestParamSign rev (\<lambda>s. s) ''1.0'' [] ''add'' ''2022-01-01 00:00:00'' ''{}''
        ''secret'' (Some [])
       = spec_encode (AppRestParamSign_reqParam ''1.0'' [] ''add'' ''2022-01-01 00:00:00''
                        ''{}'' (Some [])) @ ''secret''"
    by simp_all
  then show ?thesis
    using is_range_order_rev unfolding p by auto
qed

text \<open>
  C5. With an empty method, the signature is the one the specification's signing
  computation gives for the field set without a \<open>method\<close> field: \<open>app\<close>,
  \<open>version\<close>, \<open>timestamp\<close>, \<open>content\<close>, and \<open>token\<close> when there is one. The
  string that is signed is not the encoding of the field set with an empty \<open>method\<close>
  field added.
\<close>

theorem AppRestParamSign_empty_method_omitted:
  assumes "is_range_order ro"
  shows "AppRestParamSign ro md5 version appKey [] timestamp content appSecret token
           = spec_sign md5
               ([(''app'', appKey), (''version'', version), (''timestamp'', timestamp),
                 (''content'', content)]
                @ (case token of None \<Rightarrow> [] | Some t \<Rightarrow> [(''token'', t)]))
               appSecret
         \<and> AppRestParamSign_reqData ro
             (AppRestParamSign_reqParam version appKey [] timestamp content token)
           \<noteq> spec_encode
               ([(''app'', appKey), (''version'', version), (''timestamp'', timestamp),
                 (''content'', content), (''method'', [])]
                @ (case token of None \<Rightarrow> [] | Some t \<Rightarrow> [(''token'', t)]))"
proof -
  have p: "AppRestParamSign_reqParam version appKey [] timestamp content token
         = [(''app'', appKey), (''version'', version), (''timestamp'', timestamp),
            (''content'', content)]
           @ (case token of None \<Rightarrow> [] | Some t \<Rightarrow> [(''token'', t)])"
    by (cases token) (simp_all add: AppRestParamSign_reqParam_def)
  have 1: "AppRestParamSign ro md5 version appKey [] timestamp content appSecret token
           = spec_sign md5
               ([(''app'', appKey), (''version'', version), (''timestamp'', timestamp),
                 (''content'', content)]
                @ (case token of None \<Rightarrow> [] | Some t \<Rightarrow> [(''token'', t)]))
               appSecret"
    using reqData_spec_encode [OF assms, of version appKey "[]" timestamp content token]
    by (simp add: AppRestParamSign_def spec_sign_def p)
  have 2: "spec_encode
             ([(''app'', appKey), (''version'', version), (''timestamp'', timestamp),
               (''content'', content)]
              @ (case token of None \<Rightarrow> [] | Some t \<Rightarrow> [(''token'', t)]))
           \<noteq> spec_encode
               ([(''app'', appKey), (''version'', version), (''timestamp'', timestamp),
                 (''content'', content), (''method'', [])]
                @ (case token of None \<Rightarrow> [] | Some t \<Rightarrow> [(''token'', t)]))"
    by (cases token)
       (simp_all add: spec_encode_def le_lits nle_lits QueryEscape_def del: Cons_le_Cons)
  show ?thesis
    using 1 2 reqData_spec_encode [OF assms, of version appKey "[]" timestamp content token]
    by (simp add: p)
qed

theorem AppRestParamSign_empty_method_omitted_witness:
  "is_range_order rev
   \<and> AppRestParamSign rev example_md5_hex ''1.0'' ''hjx'' [] ''2022-01-01 00:00:00''
        ''{\"id\":\"111\"}'' ''f4dea3417a2f52ae29a635be00537395'' (Some [])
       = spec_sign example_md5_hex
           [(''app'', ''hjx''), (''version'', ''1.0''), (''timestamp'', ''2022-01-01 00:00:00''),
            (''content'', ''{\"id\":\"111\"}''), (''token'', [])]
           ''f4dea3417a2f52ae29a635be00537395''
   \<and> spec_sign example_md5_hex
           [(''app'', ''hjx''), (''version'', ''1.0''), (''timestamp'', ''2022-01-01 00:00:00''),
            (''content'', ''{\"id\":\"111\"}''), (''token'', [])]
           ''f4dea3417a2f52ae29a635be00537395''
       = ''112bb567542f71c068791bdf633375af''"
proof -
  have "spec_sign example_md5_hex
           [(''app'', ''hjx''), (''version'', ''1.0''), (''timestamp'', ''2022-01-01 00:00:00''),
            (''content'', ''{\"id\":\"111\"}''), (''token'', [])]
           ''f4dea3417a2f52ae29a635be00537395''
       = ''112bb567542f71c068791bdf633375af''"
    by code_simp
  then show ?thesis
    using is_range_order_rev
      AppRestParamSign_empty_method_omitted
        [OF is_range_order_rev, of example_md5_hex "''1.0''" "''hjx''" "''2022-01-01 00:00:00''"
           "''{\"id\":\"111\"}''" "''f4dea3417a2f52ae29a635be00537395''" "Some []"]
    by simp
qed

text \<open>
  C6. The signature does not depend on the order in which the runtime ranges over the
  map: two invocations with the same arguments, the same method and the same token
  (present or absent) return the same string, whatever the two iteration orders, because
  the keys are sorted before they are encoded.
\<close>

theorem AppRestParamSign_deterministic:
  assumes "is_range_order ro1" and "is_range_order ro2"
  shows "AppRestParamSign ro1 md5 version appKey method timestamp content appSecret token
       = AppRestParamSign ro2 md5 version appKey method timestamp content appSecret token"
  by (simp add: AppRestParamSign_def reqData_spec_encode [OF assms(1)]
      reqData_spec_encode [OF assms(2)])

theorem AppRestParamSign_deterministic_witness:
  "is_range_order rev \<and> is_range_order (\<lambda>ks. ks)
   \<and> AppRestParamSign rev example_md5_hex ''1.0'' ''hjx'' ''add'' ''2022-01-01 00:00:00''
        ''{\"id\":\"111\"}'' ''f4dea3417a2f52ae29a635be00537395'' (Some [])
       = AppRestParamSign (\<lambda>ks. ks) example_md5_hex ''1.0'' ''hjx'' ''add''
           ''2022-01-01 00:00:00'' ''{\"id\":\"111\"}'' ''f4dea3417a2f52ae29a635be00537395''
           (Some [])
   \<and> AppRestParamSign (\<lambda>ks. ks) example_md5_hex ''1.0'' ''hjx'' ''add''
           ''2022-01-01 00:00:00'' ''{\"id\":\"111\"}'' ''f4dea3417a2f52ae29a635be00537395''
           (Some [])
       = ''882f60e66cabb568b7f54bfe0d7b3a01''"
proof -
  have "AppRestParamSign (\<lambda>ks. ks) example_md5_hex ''1.0'' ''hjx'' ''add''
           ''2022-01-01 00:00:00'' ''{\"id\":\"111\"}'' ''f4dea3417a2f52ae29a635be00537395''
           (Some [])
       = ''882f60e66cabb568b7f54bfe0d7b3a01''"
    by code_simp
  then show ?thesis
    using is_range_order_rev is_range_order_id
      AppRestParamSign_deterministic [OF is_range_order_rev is_range_order_id]
    by blast
qed

section \<open>The verdict on the success envelope\<close>

text \<open>
  C3 as stated fails: on a body without the \<open>result\<close> member, \<open>CheckJsonResult\<close>
  returns an error.
\<close>

theorem CheckJsonResult_no_marker_counterexample:
  "example_Get body_no_marker ''result.code'' = None
   \<and> example_Get body_no_marker ''result.state'' = None
   \<and> CheckJsonResult example_Get body_no_marker
       = Some (AppClientError [] [] (''server return fail:'' @ body_no_marker))
   \<and> CheckJsonResult example_Get body_no_marker \<noteq> None"
  by (simp add: CheckJsonResult_def example_Get_def gjson_String_def
      body_no_marker_def body_bad_id_def body_ok_def)

text \<open>
  C3, as amended. For every body in which neither \<open>result.code\<close> nor
  \<open>result.state\<close> is present, \<open>CheckJsonResult\<close> returns an error: an
  \<open>AppClientError\<close> with empty code and empty sub-code, whose message is
  \<open>server return fail:\<close> followed by \<open>result.message\<close>, or by the whole body when
  there is no message.
\<close>

theorem CheckJsonResult_no_marker_fails:
  assumes "Get bodyStr ''result.code'' = None" and "Get bodyStr ''result.state'' = None"
  shows "CheckJsonResult Get bodyStr
           = Some (AppClientError [] []
                     (''server return fail:''
                      @ (if gjson_String (Get bodyStr ''result.message'') = [] then bodyStr
                         else gjson_String (Get bodyStr ''result.message''))))"
  using assms by (simp add: CheckJsonResult_def gjson_String_def Let_def)

theorem CheckJsonResult_no_marker_fails_witness:
  "example_Get ''{}'' ''result.code'' = None \<and> example_Get ''{}'' ''result.state'' = None
   \<and> CheckJsonResult example_Get ''{}'' = Some (AppClientError [] [] ''server return fail:{}'')"
proof -
  have c: "example_Get ''{}'' ''result.code'' = None"
    and s: "example_Get ''{}'' ''result.state'' = None"
    and m: "example_Get ''{}'' ''result.message'' = None"
    by (simp_all add: example_Get_def body_bad_id_def body_ok_def)
  from CheckJsonResult_no_marker_fails
         [where Get = example_Get and bodyStr = "''{}''", OF c s] m c s
  show ?thesis
    by (simp add: gjson_String_def)
qed

text \<open>
  C8. \<open>CheckJsonResult\<close> returns nil when \<open>result.code\<close> is \<open>200\<close> and
  \<open>result.state\<close> is \<open>ok\<close>. In every other case it returns an \<open>AppClientError\<close>
  whose code is the remote \<open>result.code\<close>, whose sub-code is the remote
  \<open>result.state\<close>, and whose message is \<open>server return fail:\<close> followed by the
  remote \<open>result.message\<close> (by the whole body when the message is empty), so the
  message, and the text of \<open>Error()\<close>, contain the remote message.
\<close>

theorem CheckJsonResult_verdict:
  "(gjson_String (Get bodyStr ''result.code'') = ''200''
      \<and> gjson_String (Get bodyStr ''result.state'') = ''ok''
      \<longrightarrow> CheckJsonResult Get bodyStr = None)
   \<and> (\<not> (gjson_String (Get bodyStr ''result.code'') = ''200''
          \<and> gjson_String (Get bodyStr ''result.state'') = ''ok'')
      \<longrightarrow> (\<exists>e. CheckJsonResult Get bodyStr = Some e
             \<and> Code e = gjson_String (Get bodyStr ''result.code'')
             \<and> SubCode e = gjson_String (Get bodyStr ''result.state'')
             \<and> Msg e = ''server return fail:''
                        @ (if gjson_String (Get bodyStr ''result.message'') = [] then bodyStr
                           else gjson_String (Get bodyStr ''result.message''))
             \<and> (\<exists>pre post. Msg e = pre @ gjson_String (Get bodyStr ''result.message'') @ post)
             \<and> (\<exists>pre post. Error e
                              = pre @ gjson_String (Get bodyStr ''result.message'') @ post)))"
proof -
  let ?m = "gjson_String (Get bodyStr ''result.message'')"
  let ?c = "gjson_String (Get bodyStr ''result.code'')"
  let ?t = "''server return fail:'' @ (if ?m = [] then bodyStr else ?m)"
  have a: "\<exists>pre post. ?t = pre @ ?m @ post"
  proof (cases "?m = []")
    case True
    then have "?t = ?t @ ?m @ []" by simp
    then show ?thesis by blast
  next
    case False
    then have "?t = ''server return fail:'' @ ?m @ []" by simp
    then show ?thesis by blast
  qed
  then obtain pre post where "?t = pre @ ?m @ post"
    by blast
  then have "?t @ '' ['' @ ?c @ '']'' = pre @ ?m @ (post @ '' ['' @ ?c @ '']'')"
    by simp
  then have b: "\<exists>pre post. ?t @ '' ['' @ ?c @ '']'' = pre @ ?m @ post"
    by blast
  show ?thesis
    using a b by (auto simp: CheckJsonResult_def Let_def)
qed

theorem CheckJsonResult_verdict_witness:
  "gjson_String (example_Get body_ok ''result.code'') = ''200''
   \<and> gjson_String (example_Get body_ok ''result.state'') = ''ok''
   \<and> CheckJsonResult example_Get body_ok = None
   \<and> gjson_String (example_Get body_bad_id ''result.code'') = ''500''
   \<and> (\<exists>e. CheckJsonResult example_Get body_bad_id = Some e
          \<and> Code e = ''500''
          \<and> Msg e = ''server return fail:bad id''
          \<and> (\<exists>pre post. Msg e = pre @ ''bad id'' @ post))"
proof -
  have ok: "gjson_String (example_Get body_ok ''result.code'') = ''200''"
    "gjson_String (example_Get body_ok ''result.state'') = ''ok''"
    by (simp_all add: example_Get_def gjson_String_def body_ok_def body_bad_id_def)
  have bad: "gjson_String (example_Get body_bad_id ''result.code'') = ''500''"
    "gjson_String (example_Get body_bad_id ''result.state'') = ''fail''"
    "gjson_String (example_Get body_bad_id ''result.message'') = ''bad id''"
    by (simp_all add: example_Get_def gjson_String_def)
  from CheckJsonResult_verdict [of example_Get body_ok] ok
  have 1: "CheckJsonResult example_Get body_ok = None"
    by blast
  have ne: "\<not> (gjson_String (example_Get body_bad_id ''result.code'') = ''200''
               \<and> gjson_String (example_Get body_bad_id ''result.state'') = ''ok'')"
    using bad by simp
  from CheckJsonResult_verdict [of example_Get body_bad_id] ne
  obtain e where e: "CheckJsonResult example_Get body_bad_id = Some e"
    "Code e = gjson_String (example_Get body_bad_id ''result.code'')"
    "Msg e = ''server return fail:''
             @ (if gjson_String (example_Get body_bad_id ''result.message'') = []
                then body_bad_id
                else gjson_String (example_Get body_bad_id ''result.message''))"
    "\<exists>pre post. Msg e = pre @ gjson_String (example_Get body_bad_id ''result.message'') @ post"
    by blast
  have "Code e = ''500''"
    using e(2) bad(1) by simp
  moreover have "Msg e = ''server return fail:bad id''"
    using e(3) unfolding bad(3) by simp
  moreover have "\<exists>pre post. Msg e = pre @ ''bad id'' @ post"
    using e(4) unfolding bad(3) .
  ultimately have 2: "\<exists>e. CheckJsonResult example_Get body_bad_id = Some e
          \<and> Code e = ''500''
          \<and> Msg e = ''server return fail:bad id''
          \<and> (\<exists>pre post. Msg e = pre @ ''bad id'' @ post)"
    using e(1) by blast
  from ok bad(1) 1 2 show ?thesis
    by blast
qed

end
